theory Spec2Isabelle
  imports Complex_Main
begin

section \<open>The record store\<close>

text \<open>
  The backend keeps its data in MongoDB collections, reached through Mongoose models.
  A collection is a list of documents in their natural order; every document carries
  its \<open>_id\<close>, written \<open>oid\<close> here, an ObjectId in its hexadecimal form. The fields of
  a document are the paths its schema in \<^verbatim>\<open>models/*.js\<close> declares, and no others:
  Mongoose schemas are strict, so a value given for a path the schema does not declare
  is neither stored nor returned. A path that the schema does not require may be unset
  on a document; such a field is an option. A \<^verbatim>\<open>Date\<close> is its number of milliseconds, a
  \<^verbatim>\<open>Number\<close> a real (no handler computes with one).
\<close>

record document =
  oid :: string

text \<open>\<^verbatim>\<open>models/ServiceRequest.js\<close> (in \<^verbatim>\<open>src/unnamed/part_000\<close>).\<close>

record service_request = document +
  user_id :: "string option"
  nurse_id :: "string option"
  patient_id :: "string option"
  estado :: string
  detalles :: "string option"
  fecha :: "int option"
  tarifa :: "real option"
  pago_realizado :: bool

text \<open>
  \<^verbatim>\<open>models/Patient.js\<close>: every path is required. (\<open>patient_name\<close> is the path
  \<^verbatim>\<open>name\<close>, which a user has too.)
\<close>

record patient = document +
  patient_name :: string
  fecha_nacimiento :: string
  genero :: string
  movilidad :: string
  descripcion :: string
  usuario_id :: string

text \<open>\<^verbatim>\<open>models/User.js\<close>: \<^verbatim>\<open>foto\<close> is optional, \<^verbatim>\<open>verificado\<close> has a default.\<close>

record user = document +
  name :: string
  user_name :: string
  password :: string
  foto :: "string option"
  verificado :: "string option"

text \<open>
  \<^verbatim>\<open>models/Nurse.js\<close>: only the two credentials are required. The paths are prefixed
  where a patient, a user or a service request has a path of the same name.
\<close>

record nurse = document +
  nurse_name :: "string option"
  nurse_fecha_nacimiento :: "string option"
  nurse_genero :: "string option"
  nurse_movilidad :: "string option"
  nurse_descripcion :: "string option"
  nurse_usuario_id :: "string option"
  especialidad :: "string option"
  ubicacion :: "string option"
  nurse_tarifa :: "real option"
  disponibilidad :: "string list option"
  certificados :: "string list option"
  nurse_user_name :: string
  nurse_password :: string

text \<open>
  \<^verbatim>\<open>models/Message.js\<close>: the paths are \<^verbatim>\<open>from\<close>, \<^verbatim>\<open>to\<close>, \<^verbatim>\<open>content\<close> and
  \<^verbatim>\<open>timestamp\<close>, the last with the default \<^verbatim>\<open>Date.now\<close>.
\<close>

record message = document +
  msg_from :: "string option"
  msg_to :: "string option"
  content :: "string option"
  timestamp :: int

text \<open>
  The Transaction model is not among the sources; the fields are the ones
  \<^verbatim>\<open>routes/transactions.js\<close> reads of a transaction. No handler below reads or writes
  the collection.
\<close>

record transaction = document +
  tx_nurse_id :: string
  tx_user_id :: string
  tx_service_request_id :: string
  monto :: real
  fecha_pago :: int
  tx_estado :: string

text \<open>
  The whole store. \<open>fault\<close> stands for a store that cannot answer: when it is
  \<open>Some m\<close>, every store operation rejects with an \<^verbatim>\<open>Error\<close> of message \<open>m\<close>, which the
  handlers' \<^verbatim>\<open>catch\<close> branches turn into a response.
\<close>

record db =
  serviceRequests :: "service_request list"
  patients :: "patient list"
  users :: "user list"
  nurses :: "nurse list"
  messages :: "message list"
  transactions :: "transaction list"
  fault :: "string option"

subsection \<open>Model operations\<close>

definition findOne :: "('a \<Rightarrow> bool) \<Rightarrow> 'a list \<Rightarrow> 'a option" where
  "findOne P xs = List.find P xs"

text \<open>
  \<^verbatim>\<open>findOneAndUpdate(filter, update, { new: true })\<close>: the first document matching the
  filter is updated in place, in one store operation, and returned as updated.
\<close>

fun findOneAndUpdate :: "('a \<Rightarrow> bool) \<Rightarrow> ('a \<Rightarrow> 'a) \<Rightarrow> 'a list \<Rightarrow> ('a \<times> 'a list) option" where
  "findOneAndUpdate P f [] = None"
| "findOneAndUpdate P f (x # xs) =
     (if P x then Some (f x, f x # xs)
      else (case findOneAndUpdate P f xs of
              None \<Rightarrow> None
            | Some (y, ys) \<Rightarrow> Some (y, x # ys)))"

text \<open>
  \<^verbatim>\<open>doc.save()\<close> on a document that was loaded from the store writes it back under its
  \<open>_id\<close>.
\<close>

fun save :: "'a document_scheme \<Rightarrow> 'a document_scheme list \<Rightarrow> 'a document_scheme list" where
  "save d [] = []"
| "save d (x # xs) = (if oid x = oid d then d # xs else x # save d xs)"

text \<open>
  \<^verbatim>\<open>doc.save()\<close> on a new document inserts it; the store refuses a second document
  with the same \<open>_id\<close> (duplicate key).
\<close>

definition insert_doc :: "'a document_scheme \<Rightarrow> 'a document_scheme list \<Rightarrow> 'a document_scheme list option" where
  "insert_doc d xs = (if oid d \<in> set (map oid xs) then None else Some (xs @ [d]))"

subsection \<open>Casts\<close>

text \<open>
  Before a filter or a document reaches the store, Mongoose casts each value to the
  type of its path and throws a \<^verbatim>\<open>CastError\<close> when it cannot. A string is cast to an
  ObjectId when it is 24 hexadecimal digits.
\<close>

definition isObjectId :: "string \<Rightarrow> bool" where
  "isObjectId i =
     (length i = 24 \<and> list_all (\<lambda>c. c \<in> set ''0123456789abcdefABCDEF'') i)"

text \<open>
  A request body is JSON that no handler validates. A body value that a handler puts
  into a document is kept as what the cast to the type of its path makes of it: the
  field is absent, it is \<^verbatim>\<open>null\<close>, it casts to a value of the type, or it is anything
  else (an object, say), on which the cast throws.
\<close>

datatype 'a input = Absent | Null | Value 'a | Invalid

text \<open>The field of the document; \<open>None\<close> is the \<^verbatim>\<open>CastError\<close>.\<close>

fun cast_field :: "'a input \<Rightarrow> 'a option option" where
  "cast_field Absent = Some None"
| "cast_field Null = Some None"
| "cast_field (Value v) = Some (Some v)"
| "cast_field Invalid = None"






text \<open>A body value that is only passed on or echoed is plain JSON.\<close>

datatype json =
    JNull
  | JBool bool
  | JNumber real
  | JString string
  | JArray "json list"
  | JObject "(string \<times> json) list"

section \<open>Tokens: \<^verbatim>\<open>middleware/auth.js\<close>\<close>

text \<open>
  (The file is the last one of \<^verbatim>\<open>src/unnamed/part_000\<close>.)

  The tokens are made and checked by the \<^verbatim>\<open>jsonwebtoken\<close> library, which is not part
  of the repository. It is taken symbolically, as keyed signatures usually are: a
  bearer string is either not a signed token at all (\<open>Opaque\<close>), or a payload signed
  under a key (\<open>JWS\<close>), and a signature verifies under the key it was made with and
  under no other. Times are in seconds, as in the payload's \<open>iat\<close> and \<open>exp\<close>.
\<close>

record 'a jwt_payload =
  userId :: 'a
  iat :: nat
  exp :: nat

datatype 'a token = Opaque string | JWS "'a jwt_payload" string

datatype jwt_error = JsonWebTokenError | TokenExpiredError

text \<open>\<^verbatim>\<open>jwt.sign({ userId }, secret, { expiresIn })\<close> at time \<open>now\<close>.\<close>

definition jwt_sign :: "'a \<Rightarrow> string \<Rightarrow> nat \<Rightarrow> nat \<Rightarrow> 'a token" where
  "jwt_sign uid secret expiresIn now =
     JWS \<lparr>userId = uid, iat = now, exp = now + expiresIn\<rparr> secret"

text \<open>
  \<^verbatim>\<open>jwt.verify(token, secret)\<close> at time \<open>now\<close>: the token is parsed, then its signature
  is checked, then its expiry (\<^verbatim>\<open>clockTimestamp >= payload.exp\<close> is expired).
\<close>

fun jwt_verify :: "'a token \<Rightarrow> string \<Rightarrow> nat \<Rightarrow> jwt_error + 'a jwt_payload" where
  "jwt_verify (Opaque t) secret now = Inl JsonWebTokenError"
| "jwt_verify (JWS payload k) secret now =
     (if k \<noteq> secret then Inl JsonWebTokenError
      else if exp payload \<le> now then Inl TokenExpiredError
      else Inr payload)"

text \<open>
  \<^verbatim>\<open>generateToken(userId)\<close>: the secret is the string written in the function, and
  \<^verbatim>\<open>'1h'\<close> is 3600 seconds.
\<close>

definition generateToken :: "'a \<Rightarrow> nat \<Rightarrow> 'a token" where
  "generateToken uid now = jwt_sign uid ''tu_secreto_jwt'' 3600 now"

text \<open>
  The guard reads \<^verbatim>\<open>req.headers['authorization']\<close> and takes element 1 of its
  \<^verbatim>\<open>split(' ')\<close>. A header value is kept as the list of its pieces between single
  spaces, which is what \<^verbatim>\<open>split(' ')\<close> computes (never the empty list); a piece that
  is not a signed token is \<open>Opaque\<close>, so \<^verbatim>\<open>Bearer\<close> is \<open>Opaque ''Bearer''\<close> and the
  empty string is \<open>Opaque []\<close>. \<open>req_userId\<close> is \<^verbatim>\<open>req.userId\<close>, unset on arrival.
\<close>

record 'a req =
  authorization :: "'a token list option"
  req_userId :: "'a option"

text \<open>The guard either answers with a bare status or hands the request on.\<close>

datatype 'a guarded = SendStatus nat | Next "'a req"

definition authenticateToken :: "'a req \<Rightarrow> nat \<Rightarrow> 'a guarded" where
  "authenticateToken req now =
     (let token =
            (case authorization req of
               None \<Rightarrow> None
             | Some pieces \<Rightarrow> if 1 < length pieces then Some (pieces ! 1) else None)
      in case token of
           None \<Rightarrow> SendStatus 401
         | Some t \<Rightarrow>
             if t = Opaque [] then SendStatus 401
             else
               (case jwt_verify t ''tu_secreto_jwt'' now of
                  Inl err \<Rightarrow> SendStatus 403
                | Inr user \<Rightarrow> Next (req\<lparr>req_userId := Some (userId user)\<rparr>)))"

text \<open>
  The login handlers sign an object rather than a bare identifier:
  \<^verbatim>\<open>generateToken({ userId: user._id, role: 'usuario' })\<close>.
\<close>

record login_identity =
  li_userId :: string
  role :: string

section \<open>Callers\<close>

text \<open>
  \<^verbatim>\<open>req.userId\<close> is what the guard attached: the \<open>userId\<close> of the token's payload. The
  register handlers sign the new document's id, \<^verbatim>\<open>generateToken(newUser._id)\<close>, so for
  their tokens it is that id, a string; the login handlers sign the object
  \<^verbatim>\<open>{ userId, role }\<close>, so for their tokens it is that object. The paths the handlers
  compare it with (\<^verbatim>\<open>user_id\<close>, \<^verbatim>\<open>nurse_id\<close>) are strings, to which an object does not
  cast.
\<close>

datatype identity = Id string | Login login_identity

fun castString :: "identity \<Rightarrow> string option" where
  "castString (Id i) = Some i"
| "castString (Login l) = None"

text \<open>
  The cast of a filter \<^verbatim>\<open>{ _id: req.params.id, <path>: req.userId, ... }\<close>: the caller's
  id when both values cast, \<open>None\<close> when the cast throws.
\<close>

definition cast_filter :: "string \<Rightarrow> identity \<Rightarrow> string option" where
  "cast_filter rid uid = (if isObjectId rid then castString uid else None)"

section \<open>Responses\<close>

text \<open>
  A response is its HTTP status and the data of its JSON body. The constant
  human-readable \<^verbatim>\<open>message\<close> texts are left out; \<open>Failure\<close> is the body of a
  \<^verbatim>\<open>catch\<close> branch, with the kind of error caught in place of \<^verbatim>\<open>error.message\<close>.
\<close>

datatype failure =
    StoreError string
  | CastError
  | ValidationError
  | DuplicateKey
  | ReferenceError string

record payment_status =
  ps_pago_realizado :: bool
  ps_estado :: string

datatype body =
    NoData
  | Failure failure
  | Request service_request
  | PaymentStatus payment_status
  | Report "json option" "json option"
  | MessageData message
  | TokenRole "login_identity token" string
  | UserToken user "string token"
  | NurseToken nurse "string token"

record response =
  status :: nat
  body :: body

section \<open>Service requests: \<^verbatim>\<open>routes/serviceRequests.js\<close>\<close>

text \<open>
  (The router is \<^verbatim>\<open>src/unnamed/part_001\<close>.)

  Each handler is a function of the caller \<open>uid\<close> (\<^verbatim>\<open>req.userId\<close>), the path parameter
  \<open>rid\<close> (\<^verbatim>\<open>req.params.id\<close>), the body fields it destructures, and the store; it
  returns the store and the response. Inside a handler's \<^verbatim>\<open>try\<close> the cast of a filter
  or a document comes first, then the store is asked; whatever throws, the \<^verbatim>\<open>catch\<close>
  answers.
\<close>

record create_body =
  body_nurse_id :: "string input"
  body_patient_ids :: "json option"
  body_detalles :: "string input"
  body_fecha :: "int input"
  body_tarifa :: "real input"

text \<open>
  \<^verbatim>\<open>new ServiceRequest({ user_id: req.userId, nurse_id, patient_ids, detalles, fecha, tarifa })\<close>
  as \<^verbatim>\<open>save()\<close> validates it: \<open>None\<close> when a value does not cast to the type of its
  path. The schema has no path \<^verbatim>\<open>patient_ids\<close>, so that value is dropped; \<open>estado\<close> and
  \<open>pago_realizado\<close> get the schema's defaults. \<open>new_id\<close> is the ObjectId the driver
  generates for the document.
\<close>

definition new_ServiceRequest :: "string \<Rightarrow> identity \<Rightarrow> create_body \<Rightarrow> service_request option" where
  "new_ServiceRequest new_id uid b =
     (case castString uid of
        None \<Rightarrow> None
      | Some u \<Rightarrow>
     (case cast_field (body_nurse_id b) of
        None \<Rightarrow> None
      | Some n \<Rightarrow>
     (case cast_field (body_detalles b) of
        None \<Rightarrow> None
      | Some d \<Rightarrow>
     (case cast_field (body_fecha b) of
        None \<Rightarrow> None
      | Some f \<Rightarrow>
     (case cast_field (body_tarifa b) of
        None \<Rightarrow> None
      | Some t \<Rightarrow>
          Some \<lparr>oid = new_id,
                user_id = Some u,
                nurse_id = n,
                patient_id = None,
                estado = ''pendiente'',
                detalles = d,
                fecha = f,
                tarifa = t,
                pago_realizado = False\<rparr>)))))"

text \<open>\<^verbatim>\<open>router.post('/')\<close>, first registration (lines 50-66): the request is stored as sent.\<close>

definition post_create :: "identity \<Rightarrow> create_body \<Rightarrow> string \<Rightarrow> db \<Rightarrow> db \<times> response" where
  "post_create uid b new_id s =
     (case new_ServiceRequest new_id uid b of
        None \<Rightarrow> (s, \<lparr>status = 400, body = Failure ValidationError\<rparr>)
      | Some newRequest \<Rightarrow>
          (case fault s of
             Some m \<Rightarrow> (s, \<lparr>status = 400, body = Failure (StoreError m)\<rparr>)
           | None \<Rightarrow>
               (case insert_doc newRequest (serviceRequests s) of
                  None \<Rightarrow> (s, \<lparr>status = 400, body = Failure DuplicateKey\<rparr>)
                | Some rs \<Rightarrow>
                    (s\<lparr>serviceRequests := rs\<rparr>,
                     \<lparr>status = 201, body = Request newRequest\<rparr>))))"

text \<open>
  \<^verbatim>\<open>router.post('/')\<close>, second registration (lines 153-175). The first statement of its
  \<^verbatim>\<open>try\<close> is \<^verbatim>\<open>Patient.find({ _id: { $in: patient_ids }, usuario_id: req.userId })\<close>, meant
  to check that the patients are the caller's. The file never requires \<^verbatim>\<open>Patient\<close>, so
  the name throws a \<^verbatim>\<open>ReferenceError\<close> and the \<^verbatim>\<open>catch\<close> answers 400, whatever the request.
\<close>

definition post_create_checked :: "identity \<Rightarrow> create_body \<Rightarrow> string \<Rightarrow> db \<Rightarrow> db \<times> response" where
  "post_create_checked uid b new_id s =
     (s, \<lparr>status = 400, body = Failure (ReferenceError ''Patient'')\<rparr>)"

text \<open>
  \<^verbatim>\<open>router.put('/:id')\<close>, first registration (lines 260-283): accept or reject. The
  body's \<open>estado\<close> must be one of the two strings (\<open>None\<close> is a body without the
  field or with a value that is not a string); then one
  \<^verbatim>\<open>findOneAndUpdate({ _id, nurse_id: req.userId }, { estado })\<close> does the whole transition.
\<close>

definition put_estado :: "identity \<Rightarrow> string \<Rightarrow> string option \<Rightarrow> db \<Rightarrow> db \<times> response" where
  "put_estado uid rid e s =
     (case e of
        None \<Rightarrow> (s, \<lparr>status = 400, body = NoData\<rparr>)
      | Some new_estado \<Rightarrow>
          if new_estado \<notin> set [''aceptada'', ''rechazada'']
          then (s, \<lparr>status = 400, body = NoData\<rparr>)
          else
            (case cast_filter rid uid of
               None \<Rightarrow> (s, \<lparr>status = 400, body = Failure CastError\<rparr>)
             | Some u \<Rightarrow>
                 (case fault s of
                    Some m \<Rightarrow> (s, \<lparr>status = 400, body = Failure (StoreError m)\<rparr>)
                  | None \<Rightarrow>
                      (case findOneAndUpdate (\<lambda>r. oid r = rid \<and> nurse_id r = Some u)
                              (\<lambda>r. r\<lparr>estado := new_estado\<rparr>) (serviceRequests s) of
                         None \<Rightarrow> (s, \<lparr>status = 404, body = NoData\<rparr>)
                       | Some (request, rs) \<Rightarrow>
                           (s\<lparr>serviceRequests := rs\<rparr>,
                            \<lparr>status = 200, body = Request request\<rparr>)))))"

text \<open>
  \<^verbatim>\<open>router.put('/:id')\<close>, second registration (lines 549-584): the same update; then,
  on acceptance, \<^verbatim>\<open>User.findById(serviceRequest.user_id)\<close> for a notification. The file
  never requires \<^verbatim>\<open>User\<close>, so on acceptance the name throws a \<^verbatim>\<open>ReferenceError\<close> after
  the update has been made, and the \<^verbatim>\<open>catch\<close> answers 400.
\<close>

definition put_estado_notify :: "identity \<Rightarrow> string \<Rightarrow> string option \<Rightarrow> db \<Rightarrow> db \<times> response" where
  "put_estado_notify uid rid e s =
     (case e of
        None \<Rightarrow> (s, \<lparr>status = 400, body = NoData\<rparr>)
      | Some new_estado \<Rightarrow>
          if new_estado \<notin> set [''aceptada'', ''rechazada'']
          then (s, \<lparr>status = 400, body = NoData\<rparr>)
          else
            (case cast_filter rid uid of
               None \<Rightarrow> (s, \<lparr>status = 400, body = Failure CastError\<rparr>)
             | Some u \<Rightarrow>
                 (case fault s of
                    Some m \<Rightarrow> (s, \<lparr>status = 400, body = Failure (StoreError m)\<rparr>)
                  | None \<Rightarrow>
                      (case findOneAndUpdate (\<lambda>r. oid r = rid \<and> nurse_id r = Some u)
                              (\<lambda>r. r\<lparr>estado := new_estado\<rparr>) (serviceRequests s) of
                         None \<Rightarrow> (s, \<lparr>status = 404, body = NoData\<rparr>)
                       | Some (serviceRequest, rs) \<Rightarrow>
                           if new_estado = ''aceptada''
                           then (s\<lparr>serviceRequests := rs\<rparr>,
                                 \<lparr>status = 400, body = Failure (ReferenceError ''User'')\<rparr>)
                           else (s\<lparr>serviceRequests := rs\<rparr>,
                                 \<lparr>status = 200, body = Request serviceRequest\<rparr>)))))"

text \<open>
  \<^verbatim>\<open>router.put('/:id/pagar')\<close> (lines 308-329): the client marks the service as paid.
  The document is looked up by \<^verbatim>\<open>{ _id, user_id: req.userId, pago_realizado: false }\<close>,
  changed and saved.
\<close>

definition put_pagar :: "identity \<Rightarrow> string \<Rightarrow> db \<Rightarrow> db \<times> response" where
  "put_pagar uid rid s =
     (case cast_filter rid uid of
        None \<Rightarrow> (s, \<lparr>status = 400, body = Failure CastError\<rparr>)
      | Some u \<Rightarrow>
          (case fault s of
             Some m \<Rightarrow> (s, \<lparr>status = 400, body = Failure (StoreError m)\<rparr>)
           | None \<Rightarrow>
               (case findOne (\<lambda>r. oid r = rid \<and> user_id r = Some u \<and> pago_realizado r = False)
                       (serviceRequests s) of
                  None \<Rightarrow> (s, \<lparr>status = 403, body = NoData\<rparr>)
                | Some serviceRequest \<Rightarrow>
                    (let serviceRequest = serviceRequest\<lparr>pago_realizado := True\<rparr>
                     in (s\<lparr>serviceRequests := save serviceRequest (serviceRequests s)\<rparr>,
                         \<lparr>status = 200, body = Request serviceRequest\<rparr>)))))"


text \<open>
  \<^verbatim>\<open>router.put('/:id/completar')\<close> (lines 420-445): the assigned nurse completes the
  service. The lookup is \<^verbatim>\<open>{ _id, nurse_id: req.userId, estado: 'pendiente' }\<close>. The
  handler then sets \<^verbatim>\<open>estado\<close>, \<^verbatim>\<open>documentacion_servicio\<close> and \<^verbatim>\<open>pago_liberado\<close> on the
  document and saves it. Of the three only \<^verbatim>\<open>estado\<close> is a path of the schema: the other
  two assignments are neither saved nor returned, and the body's
  \<^verbatim>\<open>documentacion_servicio\<close>, here \<open>doc\<close>, goes nowhere.
\<close>

definition put_completar :: "identity \<Rightarrow> string \<Rightarrow> json option \<Rightarrow> db \<Rightarrow> db \<times> response" where
  "put_completar uid rid doc s =
     (case cast_filter rid uid of
        None \<Rightarrow> (s, \<lparr>status = 400, body = Failure CastError\<rparr>)
      | Some u \<Rightarrow>
          (case fault s of
             Some m \<Rightarrow> (s, \<lparr>status = 400, body = Failure (StoreError m)\<rparr>)
           | None \<Rightarrow>
               (case findOne
                       (\<lambda>r. oid r = rid \<and> nurse_id r = Some u \<and> estado r = ''pendiente'')
                       (serviceRequests s) of
                  None \<Rightarrow> (s, \<lparr>status = 403, body = NoData\<rparr>)
                | Some serviceRequest \<Rightarrow>
                    (let serviceRequest = serviceRequest\<lparr>estado := ''completado''\<rparr>
                     in (s\<lparr>serviceRequests := save serviceRequest (serviceRequests s)\<rparr>,
                         \<lparr>status = 200, body = Request serviceRequest\<rparr>)))))"

text \<open>
  \<^verbatim>\<open>router.put('/:id/reporte')\<close> (lines 483-515): the assigned nurse files the report on
  a completed service. \<^verbatim>\<open>observaciones\<close> and \<^verbatim>\<open>recomendaciones\<close> are not paths of the
  schema: the handler sets them on the document object, \<^verbatim>\<open>save()\<close> finds nothing to
  write, and the answer reads the two values back off the object.
\<close>

definition put_reporte :: "identity \<Rightarrow> string \<Rightarrow> json option \<Rightarrow> json option \<Rightarrow> db \<Rightarrow> db \<times> response" where
  "put_reporte uid rid obs recs s =
     (case cast_filter rid uid of
        None \<Rightarrow> (s, \<lparr>status = 400, body = Failure CastError\<rparr>)
      | Some u \<Rightarrow>
          (case fault s of
             Some m \<Rightarrow> (s, \<lparr>status = 400, body = Failure (StoreError m)\<rparr>)
           | None \<Rightarrow>
               (case findOne
                       (\<lambda>r. oid r = rid \<and> nurse_id r = Some u \<and> estado r = ''completado'')
                       (serviceRequests s) of
                  None \<Rightarrow> (s, \<lparr>status = 403, body = NoData\<rparr>)
                | Some serviceRequest \<Rightarrow>
                    (s, \<lparr>status = 200, body = Report obs recs\<rparr>))))"

text \<open>
  The router. Express tries the handlers registered for a method and path in the
  order of registration and goes on to the next only when a handler calls
  \<^verbatim>\<open>next()\<close>. None of the handlers above does: each one answers. So of two handlers
  registered for the same route the first answers every request.
\<close>

definition first_handler :: "(db \<Rightarrow> db \<times> response) list \<Rightarrow> db \<Rightarrow> db \<times> response" where
  "first_handler hs s =
     (case hs of [] \<Rightarrow> (s, \<lparr>status = 404, body = NoData\<rparr>) | h # _ \<Rightarrow> h s)"

definition route_post_root :: "identity \<Rightarrow> create_body \<Rightarrow> string \<Rightarrow> db \<Rightarrow> db \<times> response" where
  "route_post_root uid b new_id =
     first_handler [post_create uid b new_id, post_create_checked uid b new_id]"

definition route_put_id :: "identity \<Rightarrow> string \<Rightarrow> string option \<Rightarrow> db \<Rightarrow> db \<times> response" where
  "route_put_id uid rid e =
     first_handler [put_estado uid rid e, put_estado_notify uid rid e]"

section \<open>Messages: \<^verbatim>\<open>routes/messages.js\<close>\<close>



section \<open>Users and nurses: \<^verbatim>\<open>routes/users.js\<close> and \<^verbatim>\<open>routes/nurses.js\<close>\<close>









section \<open>A store to run the handlers on\<close>

text \<open>
  The ids of the example: two clients, two nurses, two patients, a request and the id
  the driver gives the next document.
\<close>

definition c1 :: string where "c1 = ''650000000000000000000c01''"

definition c2 :: string where "c2 = ''650000000000000000000c02''"

definition n1 :: string where "n1 = ''650000000000000000000a01''"

definition n2 :: string where "n2 = ''650000000000000000000a02''"

definition p1 :: string where "p1 = ''650000000000000000000b01''"

definition p2 :: string where "p2 = ''650000000000000000000b02''"

definition r1 :: string where "r1 = ''650000000000000000000d01''"

definition r2 :: string where "r2 = ''650000000000000000000d02''"

text \<open>
  Client \<open>c1\<close> owns patient \<open>p1\<close>, client \<open>c2\<close> owns patient \<open>p2\<close>; \<open>c1\<close> has
  asked nurse \<open>n1\<close> for a service, request \<open>r1\<close>, still pending; \<open>n2\<close> is another
  nurse.
\<close>

definition ex_request :: service_request where
  "ex_request =
     \<lparr>oid = r1, user_id = Some c1, nurse_id = Some n1, patient_id = None,
      estado = ''pendiente'', detalles = Some ''curas'', fecha = Some 1730764800000,
      tarifa = Some 50, pago_realizado = False\<rparr>"

definition ex_patients :: "patient list" where
  "ex_patients =
     [\<lparr>oid = p1, patient_name = ''Ana'', fecha_nacimiento = ''1950-01-01'', genero = ''F'',
       movilidad = ''reducida'', descripcion = ''diabetes'', usuario_id = c1\<rparr>,
      \<lparr>oid = p2, patient_name = ''Luis'', fecha_nacimiento = ''1948-03-02'', genero = ''M'',
       movilidad = ''normal'', descripcion = ''hipertension'', usuario_id = c2\<rparr>]"

definition ex_users :: "user list" where
  "ex_users =
     [\<lparr>oid = c1, name = ''Clara'', user_name = ''clara'', password = ''secreto1'',
       foto = None, verificado = Some ''No''\<rparr>,
      \<lparr>oid = c2, name = ''Carlos'', user_name = ''carlos'', password = ''secreto2'',
       foto = None, verificado = Some ''No''\<rparr>]"

definition ex_nurses :: "nurse list" where
  "ex_nurses =
     [\<lparr>oid = n1, nurse_name = Some ''Nora'', nurse_fecha_nacimiento = None,
       nurse_genero = None, nurse_movilidad = None, nurse_descripcion = None,
       nurse_usuario_id = None, especialidad = Some ''geriatria'',
       ubicacion = Some ''Lima'', nurse_tarifa = Some 50, disponibilidad = Some [],
       certificados = Some [], nurse_user_name = ''nora'', nurse_password = ''clave1''\<rparr>,
      \<lparr>oid = n2, nurse_name = Some ''Nilo'', nurse_fecha_nacimiento = None,
       nurse_genero = None, nurse_movilidad = None, nurse_descripcion = None,
       nurse_usuario_id = None, especialidad = Some ''pediatria'',
       ubicacion = Some ''Cusco'', nurse_tarifa = Some 40, disponibilidad = Some [],
       certificados = Some [], nurse_user_name = ''nilo'', nurse_password = ''clave2''\<rparr>]"

definition ex_db :: db where
  "ex_db =
     \<lparr>serviceRequests = [ex_request],
      patients = ex_patients,
      users = ex_users,
      nurses = ex_nurses,
      messages = [],
      transactions = [],
      fault = None\<rparr>"


text \<open>A request for a patient of another client.\<close>

definition ex_create_body :: create_body where
  "ex_create_body =
     \<lparr>body_nurse_id = Value n1, body_patient_ids = Some (JArray [JString p2]),
      body_detalles = Value ''curas'', body_fecha = Value 1730851200000,
      body_tarifa = Value 50\<rparr>"



text \<open>Store invariant: no two documents of a collection share an \<open>_id\<close>.\<close>

definition unique_ids :: "'a document_scheme list \<Rightarrow> bool" where
  "unique_ids xs = distinct (map oid xs)"

text \<open>The identity of a request and of its two parties.\<close>

definition parties :: "service_request \<Rightarrow> string \<times> string option \<times> string option" where
  "parties r = (oid r, user_id r, nurse_id r)"

section \<open>Facts about the model operations\<close>

lemma findOne_Some_holds: "findOne P xs = Some r \<Longrightarrow> P r \<and> r \<in> set xs"
  by (auto simp: findOne_def find_Some_iff)







text \<open>The ids of the example are ObjectIds, and different ones.\<close>

lemma isObjectId_r1: "isObjectId r1"
  by (simp add: isObjectId_def r1_def)

lemma isObjectId_r2: "isObjectId r2"
  by (simp add: isObjectId_def r2_def)


lemma example_ids_differ:
  "c1 \<noteq> c2" "c2 \<noteq> c1" "n1 \<noteq> n2" "n2 \<noteq> n1" "c1 \<noteq> n1" "c1 \<noteq> n2" "c2 \<noteq> n1" "c2 \<noteq> n2"
  "n1 \<noteq> c1" "n2 \<noteq> c1" "n1 \<noteq> c2" "n2 \<noteq> c2" "r1 \<noteq> r2" "r2 \<noteq> r1" "p1 \<noteq> p2" "p2 \<noteq> p1"
  by (simp_all add: c1_def c2_def n1_def n2_def r1_def r2_def p1_def p2_def)

section \<open>Accept and reject\<close>

lemma route_put_id_eq: "route_put_id uid rid e s = put_estado uid rid e s"
  by (simp add: route_put_id_def first_handler_def)



lemma put_estado_notify_same_store:
  "fst (put_estado_notify uid rid e s) = fst (put_estado uid rid e s)"
  by (simp add: put_estado_notify_def put_estado_def split: option.splits)




section \<open>Saving a document\<close>

lemma map_oid_save: "map oid (save d xs) = map oid xs"
  by (induction xs) auto

lemma unique_ids_save: "unique_ids xs \<Longrightarrow> unique_ids (save d xs)"
  by (simp add: unique_ids_def map_oid_save)




lemma save_frame:
  "unique_ids xs \<Longrightarrow> r \<in> set xs \<Longrightarrow> oid d = oid r \<Longrightarrow> g d = g r \<Longrightarrow> map g (save d xs) = map g xs"
  by (induction xs) (auto simp: unique_ids_def)

lemma findOneAndUpdate_frame:
  "findOneAndUpdate P f xs = Some (y, ys) \<Longrightarrow> (\<And>x. g (f x) = g x) \<Longrightarrow> map g ys = map g xs"
  by (induction xs arbitrary: y ys) (auto split: if_splits option.splits)

section \<open>Completion\<close>




section \<open>Payment\<close>




section \<open>The parties of a request\<close>

lemma put_estado_frame:
  assumes "\<And>r v. g (r\<lparr>estado := v\<rparr>) = g r"
  shows "map g (serviceRequests (fst (put_estado uid rid e s))) = map g (serviceRequests s)"
  using assms
  by (auto simp: put_estado_def split: option.splits dest: findOneAndUpdate_frame[where g = g])

lemma put_pagar_frame:
  assumes "unique_ids (serviceRequests s)" and "\<And>r v. g (r\<lparr>pago_realizado := v\<rparr>) = g r"
  shows "map g (serviceRequests (fst (put_pagar uid rid s))) = map g (serviceRequests s)"
proof (cases "cast_filter rid uid")
  case None
  then show ?thesis by (simp add: put_pagar_def)
next
  case (Some u)
  show ?thesis
  proof (cases "fault s")
    case F: (Some m)
    with Some show ?thesis by (simp add: put_pagar_def)
  next
    case None
    show ?thesis
    proof (cases "findOne (\<lambda>r. oid r = rid \<and> user_id r = Some u \<and> pago_realizado r = False)
                    (serviceRequests s)")
      case N: None
      with None Some show ?thesis by (simp add: put_pagar_def)
    next
      case R: (Some r)
      then have "r \<in> set (serviceRequests s)" by (auto dest: findOne_Some_holds)
      from save_frame[OF assms(1) this, of "r\<lparr>pago_realizado := True\<rparr>" g] assms(2) None Some R
      show ?thesis by (simp add: put_pagar_def Let_def)
    qed
  qed
qed

lemma put_completar_frame:
  assumes "unique_ids (serviceRequests s)" and "\<And>r v. g (r\<lparr>estado := v\<rparr>) = g r"
  shows "map g (serviceRequests (fst (put_completar uid rid doc s))) = map g (serviceRequests s)"
proof (cases "cast_filter rid uid")
  case None
  then show ?thesis by (simp add: put_completar_def)
next
  case (Some u)
  show ?thesis
  proof (cases "fault s")
    case F: (Some m)
    with Some show ?thesis by (simp add: put_completar_def)
  next
    case None
    show ?thesis
    proof (cases "findOne (\<lambda>r. oid r = rid \<and> nurse_id r = Some u \<and> estado r = ''pendiente'')
                    (serviceRequests s)")
      case N: None
      with None Some show ?thesis by (simp add: put_completar_def)
    next
      case R: (Some r)
      then have "r \<in> set (serviceRequests s)" by (auto dest: findOne_Some_holds)
      from save_frame[OF assms(1) this, of "r\<lparr>estado := ''completado''\<rparr>" g] assms(2) None Some R
      show ?thesis by (simp add: put_completar_def Let_def)
    qed
  qed
qed

lemma put_reporte_same_store: "fst (put_reporte uid rid obs recs s) = s"
  by (simp add: put_reporte_def split: option.splits)

lemma unique_ids_insert_doc: "unique_ids xs \<Longrightarrow> insert_doc d xs = Some ys \<Longrightarrow> unique_ids ys"
  by (auto simp: insert_doc_def unique_ids_def split: if_splits)

lemma unique_ids_map_oid: "map oid ys = map oid xs \<Longrightarrow> unique_ids xs \<Longrightarrow> unique_ids ys"
  by (simp add: unique_ids_def)

text \<open>
  Unique ids are an invariant of the store: every handler that writes service requests
  keeps them.
\<close>

lemma unique_ids_preserved:
  assumes "unique_ids (serviceRequests s)"
  shows "unique_ids (serviceRequests (fst (post_create uid b new_id s)))"
    and "unique_ids (serviceRequests (fst (post_create_checked uid b new_id s)))"
    and "unique_ids (serviceRequests (fst (put_estado uid rid e s)))"
    and "unique_ids (serviceRequests (fst (put_estado_notify uid rid e s)))"
    and "unique_ids (serviceRequests (fst (put_pagar uid rid s)))"
    and "unique_ids (serviceRequests (fst (put_completar uid rid doc s)))"
    and "unique_ids (serviceRequests (fst (put_reporte uid rid obs recs s)))"
proof -
  show "unique_ids (serviceRequests (fst (post_create uid b new_id s)))"
    using assms
    by (auto simp: post_create_def split: option.splits dest: unique_ids_insert_doc)
  show "unique_ids (serviceRequests (fst (post_create_checked uid b new_id s)))"
    using assms by (simp add: post_create_checked_def)
  show e: "unique_ids (serviceRequests (fst (put_estado uid rid e s)))"
    by (rule unique_ids_map_oid[OF put_estado_frame assms]) simp
  show "unique_ids (serviceRequests (fst (put_estado_notify uid rid e s)))"
    using e by (simp add: put_estado_notify_same_store)
  show "unique_ids (serviceRequests (fst (put_pagar uid rid s)))"
    by (rule unique_ids_map_oid[OF put_pagar_frame[OF assms] assms]) simp
  show "unique_ids (serviceRequests (fst (put_completar uid rid doc s)))"
    by (rule unique_ids_map_oid[OF put_completar_frame[OF assms] assms]) simp
  show "unique_ids (serviceRequests (fst (put_reporte uid rid obs recs s)))"
    using assms by (simp add: put_reporte_same_store)
qed

text \<open>
  C9. In a store with unique ids, none of the lifecycle operations (accept/reject in
  both registrations, payment, completion, report) changes the id, the \<open>user_id\<close> or
  the \<open>nurse_id\<close> of any stored request, whoever calls with whatever id and body,
  whether the call succeeds, is denied or fails. Each operation changes at most its
  own fields: accept/reject and completion the \<open>estado\<close>, payment
  \<open>pago_realizado\<close> (the requests with that field blanked are the same before and
  after); the report changes no stored request at all.
\<close>

theorem parties_never_change:
  assumes "unique_ids (serviceRequests s)"
  shows "map parties (serviceRequests (fst (route_put_id uid rid e s)))
           = map parties (serviceRequests s)
       \<and> map parties (serviceRequests (fst (put_estado_notify uid rid e s)))
           = map parties (serviceRequests s)
       \<and> map parties (serviceRequests (fst (put_pagar uid rid s)))
           = map parties (serviceRequests s)
       \<and> map parties (serviceRequests (fst (put_completar uid rid doc s)))
           = map parties (serviceRequests s)
       \<and> map parties (serviceRequests (fst (put_reporte uid rid obs recs s)))
           = map parties (serviceRequests s)
       \<and> map (\<lambda>r. r\<lparr>estado := []\<rparr>) (serviceRequests (fst (route_put_id uid rid e s)))
           = map (\<lambda>r. r\<lparr>estado := []\<rparr>) (serviceRequests s)
       \<and> map (\<lambda>r. r\<lparr>estado := []\<rparr>) (serviceRequests (fst (put_estado_notify uid rid e s)))
           = map (\<lambda>r. r\<lparr>estado := []\<rparr>) (serviceRequests s)
       \<and> map (\<lambda>r. r\<lparr>pago_realizado := False\<rparr>) (serviceRequests (fst (put_pagar uid rid s)))
           = map (\<lambda>r. r\<lparr>pago_realizado := False\<rparr>) (serviceRequests s)
       \<and> map (\<lambda>r. r\<lparr>estado := []\<rparr>) (serviceRequests (fst (put_completar uid rid doc s)))
           = map (\<lambda>r. r\<lparr>estado := []\<rparr>) (serviceRequests s)
       \<and> serviceRequests (fst (put_reporte uid rid obs recs s)) = serviceRequests s"
proof (intro conjI)
  show "map parties (serviceRequests (fst (route_put_id uid rid e s)))
           = map parties (serviceRequests s)"
    unfolding route_put_id_eq by (rule put_estado_frame) (simp add: parties_def)
  show "map parties (serviceRequests (fst (put_estado_notify uid rid e s)))
           = map parties (serviceRequests s)"
    unfolding put_estado_notify_same_store by (rule put_estado_frame) (simp add: parties_def)
  show "map parties (serviceRequests (fst (put_pagar uid rid s)))
           = map parties (serviceRequests s)"
    by (rule put_pagar_frame[OF assms]) (simp add: parties_def)
  show "map parties (serviceRequests (fst (put_completar uid rid doc s)))
           = map parties (serviceRequests s)"
    by (rule put_completar_frame[OF assms]) (simp add: parties_def)
  show "map parties (serviceRequests (fst (put_reporte uid rid obs recs s)))
           = map parties (serviceRequests s)"
    by (simp add: put_reporte_same_store)
  show "map (\<lambda>r. r\<lparr>estado := []\<rparr>) (serviceRequests (fst (route_put_id uid rid e s)))
           = map (\<lambda>r. r\<lparr>estado := []\<rparr>) (serviceRequests s)"
    unfolding route_put_id_eq by (rule put_estado_frame) simp
  show "map (\<lambda>r. r\<lparr>estado := []\<rparr>) (serviceRequests (fst (put_estado_notify uid rid e s)))
           = map (\<lambda>r. r\<lparr>estado := []\<rparr>) (serviceRequests s)"
    unfolding put_estado_notify_same_store by (rule put_estado_frame) simp
  show "map (\<lambda>r. r\<lparr>pago_realizado := False\<rparr>) (serviceRequests (fst (put_pagar uid rid s)))
           = map (\<lambda>r. r\<lparr>pago_realizado := False\<rparr>) (serviceRequests s)"
    by (rule put_pagar_frame[OF assms]) simp
  show "map (\<lambda>r. r\<lparr>estado := []\<rparr>) (serviceRequests (fst (put_completar uid rid doc s)))
           = map (\<lambda>r. r\<lparr>estado := []\<rparr>) (serviceRequests s)"
    by (rule put_completar_frame[OF assms]) simp
  show "serviceRequests (fst (put_reporte uid rid obs recs s)) = serviceRequests s"
    by (simp add: put_reporte_same_store)
qed

text \<open>The theorem at work on request \<open>r1\<close> of client \<open>c1\<close> and nurse \<open>n1\<close>.\<close>

theorem parties_never_change_witness:
  "map parties (serviceRequests (fst (route_put_id (Id n1) r1 (Some ''aceptada'') ex_db)))
     = [(r1, Some c1, Some n1)]
   \<and> status (snd (route_put_id (Id n1) r1 (Some ''aceptada'') ex_db)) = 200
   \<and> map parties (serviceRequests (fst (put_pagar (Id c1) r1 ex_db)))
     = [(r1, Some c1, Some n1)]
   \<and> status (snd (put_pagar (Id c1) r1 ex_db)) = 200
   \<and> map parties (serviceRequests (fst (put_completar (Id n1) r1 None ex_db)))
     = [(r1, Some c1, Some n1)]
   \<and> status (snd (put_completar (Id n1) r1 None ex_db)) = 200"
  using parties_never_change[of ex_db "Id n1" r1 "Some ''aceptada''" None]
    parties_never_change[of ex_db "Id c1" r1 "Some ''aceptada''" None]
  by (simp add: ex_db_def ex_request_def unique_ids_def parties_def put_completar_def
      put_pagar_def route_put_id_eq put_estado_def findOne_def Let_def cast_filter_def
      isObjectId_r1)

section \<open>Creation\<close>

lemma route_post_root_eq: "route_post_root uid b new_id s = post_create uid b new_id s"
  by (simp add: route_post_root_def first_handler_def)

text \<open>
  What the route answers depends neither on the patients the body names nor on the
  patients in the store.
\<close>

lemma route_post_root_ignores_patients:
  "snd (route_post_root uid (b\<lparr>body_patient_ids := ids\<rparr>) new_id (s\<lparr>patients := ps\<rparr>))
     = snd (route_post_root uid b new_id s)"
  by (simp add: route_post_root_eq post_create_def new_ServiceRequest_def
      split: option.splits)

text \<open>
  C4 at a failing input. Express gives \<^verbatim>\<open>POST /\<close> to the handler registered first,
  which stores the request without looking at any patient. Client \<open>c1\<close> names patient
  \<open>p2\<close>, who belongs to client \<open>c2\<close>: the route answers 201 and the pending request
  is in the store.
\<close>

theorem create_answered_unchecked:
  "map oid (patients ex_db) = [p1, p2]
   \<and> map usuario_id (patients ex_db) = [c1, c2]
   \<and> c1 \<noteq> c2
   \<and> body_patient_ids ex_create_body = Some (JArray [JString p2])
   \<and> route_post_root (Id c1) ex_create_body r2 ex_db
     = (ex_db\<lparr>serviceRequests :=
                [ex_request,
                 \<lparr>oid = r2, user_id = Some c1, nurse_id = Some n1, patient_id = None,
                  estado = ''pendiente'', detalles = Some ''curas'',
                  fecha = Some 1730851200000, tarifa = Some 50, pago_realizado = False\<rparr>]\<rparr>,
        \<lparr>status = 201,
         body = Request
           \<lparr>oid = r2, user_id = Some c1, nurse_id = Some n1, patient_id = None,
            estado = ''pendiente'', detalles = Some ''curas'',
            fecha = Some 1730851200000, tarifa = Some 50, pago_realizado = False\<rparr>\<rparr>)"
  by (simp add: ex_db_def ex_patients_def ex_create_body_def ex_request_def route_post_root_def
      first_handler_def post_create_def insert_doc_def new_ServiceRequest_def
      example_ids_differ)

section \<open>Denials\<close>




section \<open>The guard\<close>

text \<open>
  What the guard answers, case by case. It answers 401 only when it reads no token:
  the Authorization header is absent, has no second piece, or its second piece is
  empty. Once there is a token, every failure of its verification is answered 403: a
  token that is not a signed token at all (malformed), one signed under another key
  (invalid signature), and one whose expiry has been reached (expired). A token signed
  under the guard's key and not yet expired passes, and its \<open>userId\<close> is attached to
  the request.
\<close>

lemma guard_statuses:
  "(authorization req = None \<longrightarrow> authenticateToken req now = SendStatus 401)
   \<and> (\<forall>ps. authorization req = Some ps \<and> length ps \<le> 1 \<longrightarrow>
          authenticateToken req now = SendStatus 401)
   \<and> (\<forall>ps. authorization req = Some ps \<and> 1 < length ps \<and> ps ! 1 = Opaque [] \<longrightarrow>
          authenticateToken req now = SendStatus 401)
   \<and> (\<forall>ps t. authorization req = Some ps \<and> 1 < length ps \<and> ps ! 1 = Opaque t \<and> t \<noteq> [] \<longrightarrow>
          authenticateToken req now = SendStatus 403)
   \<and> (\<forall>ps p k. authorization req = Some ps \<and> 1 < length ps \<and> ps ! 1 = JWS p k
          \<and> k \<noteq> ''tu_secreto_jwt'' \<longrightarrow>
          authenticateToken req now = SendStatus 403)
   \<and> (\<forall>ps p. authorization req = Some ps \<and> 1 < length ps \<and> ps ! 1 = JWS p ''tu_secreto_jwt''
          \<and> exp p \<le> now \<longrightarrow>
          authenticateToken req now = SendStatus 403)
   \<and> (\<forall>ps p. authorization req = Some ps \<and> 1 < length ps \<and> ps ! 1 = JWS p ''tu_secreto_jwt''
          \<and> now < exp p \<longrightarrow>
          authenticateToken req now = Next (req\<lparr>req_userId := Some (userId p)\<rparr>))"
  by (simp add: authenticateToken_def Let_def)

text \<open>
  One request for each of the seven cases: no header, a header with one piece, an
  empty token, a malformed token, a foreign signature, an expired token, a good token.
\<close>

lemma guard_statuses_cases:
  "authenticateToken \<lparr>authorization = None, req_userId = None :: string option\<rparr> 100
     = SendStatus 401
   \<and> authenticateToken \<lparr>authorization = Some [Opaque ''Bearer''], req_userId = None :: string option\<rparr> 100
     = SendStatus 401
   \<and> authenticateToken
       \<lparr>authorization = Some [Opaque ''Bearer'', Opaque []], req_userId = None :: string option\<rparr> 100
     = SendStatus 401
   \<and> authenticateToken
       \<lparr>authorization = Some [Opaque ''Bearer'', Opaque ''abc''], req_userId = None :: string option\<rparr> 100
     = SendStatus 403
   \<and> authenticateToken
       \<lparr>authorization = Some [Opaque ''Bearer'', JWS \<lparr>userId = ''c1'', iat = 0, exp = 3600\<rparr> ''otro''],
        req_userId = None\<rparr> 100
     = SendStatus 403
   \<and> authenticateToken
       \<lparr>authorization =
          Some [Opaque ''Bearer'', JWS \<lparr>userId = ''c1'', iat = 0, exp = 3600\<rparr> ''tu_secreto_jwt''],
        req_userId = None\<rparr> 3600
     = SendStatus 403
   \<and> authenticateToken
       \<lparr>authorization =
          Some [Opaque ''Bearer'', JWS \<lparr>userId = ''c1'', iat = 0, exp = 3600\<rparr> ''tu_secreto_jwt''],
        req_userId = None\<rparr> 100
     = Next \<lparr>authorization =
          Some [Opaque ''Bearer'', JWS \<lparr>userId = ''c1'', iat = 0, exp = 3600\<rparr> ''tu_secreto_jwt''],
        req_userId = Some ''c1''\<rparr>"
  using guard_statuses[of "\<lparr>authorization = None, req_userId = None :: string option\<rparr>" 100]
    guard_statuses[of "\<lparr>authorization = Some [Opaque ''Bearer''], req_userId = None :: string option\<rparr>" 100]
    guard_statuses[of "\<lparr>authorization = Some [Opaque ''Bearer'', Opaque []], req_userId = None :: string option\<rparr>" 100]
    guard_statuses[of "\<lparr>authorization = Some [Opaque ''Bearer'', Opaque ''abc''], req_userId = None :: string option\<rparr>" 100]
    guard_statuses[of "\<lparr>authorization = Some [Opaque ''Bearer'', JWS \<lparr>userId = ''c1'', iat = 0, exp = 3600\<rparr> ''otro''],
        req_userId = None\<rparr>" 100]
    guard_statuses[of "\<lparr>authorization =
          Some [Opaque ''Bearer'', JWS \<lparr>userId = ''c1'', iat = 0, exp = 3600\<rparr> ''tu_secreto_jwt''],
        req_userId = None\<rparr>" 3600]
    guard_statuses[of "\<lparr>authorization =
          Some [Opaque ''Bearer'', JWS \<lparr>userId = ''c1'', iat = 0, exp = 3600\<rparr> ''tu_secreto_jwt''],
        req_userId = None\<rparr>" 100]
  by simp

text \<open>
  C5 at a failing input. A request whose bearer token is malformed, and one whose
  token is signed under the guard's key but has expired, are both answered 403 by the
  guard, where 401 is due (as the documentation of \<^verbatim>\<open>GET /users/panel\<close> says too:
  401 for a token that is not given or not valid).
\<close>

theorem guard_answers_403:
  "authenticateToken
       \<lparr>authorization = Some [Opaque ''Bearer'', Opaque ''abc''], req_userId = None :: string option\<rparr> 100
     = SendStatus 403
   \<and> authenticateToken
       \<lparr>authorization =
          Some [Opaque ''Bearer'', JWS \<lparr>userId = ''c1'', iat = 0, exp = 3600\<rparr> ''tu_secreto_jwt''],
        req_userId = None\<rparr> 3600
     = SendStatus 403"
  by (simp add: authenticateToken_def)

section \<open>Issue and verify\<close>

text \<open>
  C6. A token issued at time \<open>t0\<close> for the pair of an id and a role, as the login
  handlers issue it, verifies to a payload whose \<open>userId\<close> is exactly that pair at
  every time before \<open>t0 + 3600\<close>, and the guard attaches exactly that pair to the
  request; from \<open>t0 + 3600\<close> on, one hour after issue, verification fails with
  \<open>TokenExpiredError\<close>, and the guard answers 403.
\<close>

theorem token_round_trip:
  "jwt_verify (generateToken \<lparr>li_userId = i, role = r\<rparr> t0) ''tu_secreto_jwt'' now
     = (if now < t0 + 3600
        then Inr \<lparr>userId = \<lparr>li_userId = i, role = r\<rparr>, iat = t0, exp = t0 + 3600\<rparr>
        else Inl TokenExpiredError)
   \<and> authenticateToken
       \<lparr>authorization = Some [Opaque ''Bearer'', generateToken \<lparr>li_userId = i, role = r\<rparr> t0],
        req_userId = None\<rparr> now
     = (if now < t0 + 3600
        then Next \<lparr>authorization =
                     Some [Opaque ''Bearer'', generateToken \<lparr>li_userId = i, role = r\<rparr> t0],
                   req_userId = Some \<lparr>li_userId = i, role = r\<rparr>\<rparr>
        else SendStatus 403)"
  by (auto simp: authenticateToken_def generateToken_def jwt_sign_def)

section \<open>The signing secret\<close>

text \<open>
  C7, as the code has it. The signing key is not a parameter of anything: every
  token \<open>generateToken\<close> issues is signed under the string \<^verbatim>\<open>'tu_secreto_jwt'\<close> written
  in the function, and the guard lets a signed token pass exactly when it is signed
  under that same string and has not expired, and answers 403 otherwise.
\<close>

theorem secret_is_the_literal:
  "generateToken u t0 = JWS \<lparr>userId = u, iat = t0, exp = t0 + 3600\<rparr> ''tu_secreto_jwt''
   \<and> (authenticateToken \<lparr>authorization = Some [b, JWS p k], req_userId = None\<rparr> now
        = Next \<lparr>authorization = Some [b, JWS p k], req_userId = Some (userId p)\<rparr>
      \<longleftrightarrow> k = ''tu_secreto_jwt'' \<and> now < exp p)
   \<and> (authenticateToken \<lparr>authorization = Some [b, JWS p k], req_userId = None\<rparr> now
        = SendStatus 403
      \<longleftrightarrow> \<not> (k = ''tu_secreto_jwt'' \<and> now < exp p))"
  by (auto simp: authenticateToken_def generateToken_def jwt_sign_def)

text \<open>
  Against C7 as stated: the key of an issued token is the string of the source, and
  a token nobody issued, made with that string for nurse \<open>n1\<close>, passes the guard.
\<close>

theorem secret_counterexample:
  "generateToken ''c1'' 0 = JWS \<lparr>userId = ''c1'', iat = 0, exp = 3600\<rparr> ''tu_secreto_jwt''
   \<and> authenticateToken
       \<lparr>authorization =
          Some [Opaque ''Bearer'', JWS \<lparr>userId = ''n1'', iat = 50, exp = 5000\<rparr> ''tu_secreto_jwt''],
        req_userId = None\<rparr> 100
     = Next \<lparr>authorization =
          Some [Opaque ''Bearer'', JWS \<lparr>userId = ''n1'', iat = 50, exp = 5000\<rparr> ''tu_secreto_jwt''],
        req_userId = Some ''n1''\<rparr>"
  by (simp add: authenticateToken_def generateToken_def jwt_sign_def)

section \<open>Login\<close>














end
